theory Spec2Isabelle
  imports Main "HOL-Library.Sublist" "HOL-Library.AList"
begin

section \<open>Python strings\<close>

text \<open>
  A Python \<open>str\<close> is modelled as a \<open>string\<close> whose characters are the code points
  0..255. \<open>str.isspace\<close>, \<open>str.lower\<close> and \<open>str.strip\<close> are written out for that
  range: the white space of Python is 9..13, 28..32, 133 and 160, and the letters with a
  lower-case partner are A..Z and the Latin-1 capitals 192..222 without 215, whose partner
  is 32 further on (bit 5 set).
\<close>

definition py_isspace :: "char \<Rightarrow> bool" where
  "py_isspace c = (let n = (of_char c :: nat) in
     (9 \<le> n \<and> n \<le> 13) \<or> (28 \<le> n \<and> n \<le> 32) \<or> n = 133 \<or> n = 160)"

definition py_lower_char :: "char \<Rightarrow> char" where
  "py_lower_char c = (let n = (of_char c :: nat) in
     if (65 \<le> n \<and> n \<le> 90) \<or> (192 \<le> n \<and> n \<le> 222 \<and> n \<noteq> 215)
     then (case c of Char b0 b1 b2 b3 b4 b5 b6 b7 \<Rightarrow> Char b0 b1 b2 b3 b4 True b6 b7)
     else c)"

definition lower :: "string \<Rightarrow> string" where
  "lower s = map py_lower_char s"

definition strip :: "string \<Rightarrow> string" where
  "strip s = rev (dropWhile py_isspace (rev (dropWhile py_isspace s)))"

text \<open>\<open>str_in kw s\<close> is Python's \<open>kw in s\<close> on strings: \<open>kw\<close> occurs in \<open>s\<close> as a
  contiguous piece.\<close>

fun str_in :: "string \<Rightarrow> string \<Rightarrow> bool" where
  "str_in kw [] = (kw = [])"
| "str_in kw (c # s) = (prefix kw (c # s) \<or> str_in kw s)"

text \<open>\<open>any(kw in s for kw in kws)\<close>.\<close>

definition any_in :: "string list \<Rightarrow> string \<Rightarrow> bool" where
  "any_in kws s = list_ex (\<lambda>kw. str_in kw s) kws"

definition endswith_qmark :: "string \<Rightarrow> bool" where
  "endswith_qmark s = (s \<noteq> [] \<and> last s = CHR ''?'')"

text \<open>Python slicing \<open>xs[start:]\<close> with an integer \<open>start\<close>: a negative start counts
  from the end, and both directions are clipped to the list.\<close>

definition py_slice_from :: "int \<Rightarrow> 'a list \<Rightarrow> 'a list" where
  "py_slice_from start xs =
     (let n = int (length xs);
          s = (if start < 0 then max 0 (start + n) else min start n)
      in drop (nat s) xs)"

fun index_of :: "'a list \<Rightarrow> 'a \<Rightarrow> nat" where
  "index_of [] x = 0"
| "index_of (y # ys) x = (if y = x then 0 else Suc (index_of ys x))"

definition digit_char :: "nat \<Rightarrow> char" where
  "digit_char d = ''0123456789'' ! d"

fun str_of_nat :: "nat \<Rightarrow> string" where
  "str_of_nat n =
     (if n < 10 then [digit_char n] else str_of_nat (n div 10) @ [digit_char (n mod 10)])"

section \<open>Configuration (config/settings.py)\<close>

type_synonym agent_id = string

definition AGENT_CHAIN :: "agent_id list" where
  "AGENT_CHAIN = [''requirements_evolver'', ''ux_architect'', ''ui_designer'',
     ''frontend_engineer'', ''data_architect'', ''api_designer'', ''devops'']"

text \<open>\<open>SESSION_CONFIG\<close> is a dictionary; the two keys that the session reads are kept as
  optional fields, \<open>None\<close> for a key the dictionary does not have.\<close>

record session_config =
  max_messages :: "int option"
  compaction_strategy :: "string option"

definition SESSION_CONFIG :: session_config where
  "SESSION_CONFIG = \<lparr>max_messages = Some 50, compaction_strategy = None\<rparr>"

section \<open>Project data (storage/local_storage.py)\<close>

text \<open>
  The requirement dictionary that \<open>_extract_requirements_enhanced\<close> stores. Its fields
  \<open>summary\<close>, \<open>technical_specs\<close> and \<open>timestamp\<close> are values computed from the response
  and the clock that no routing or readiness function reads; they are left out.
\<close>

record requirement =
  full_response :: string
  req_user_message :: string
  req_agent :: agent_id
  has_substance :: bool

record message =
  role :: string
  message_text :: string
  msg_agent :: "agent_id option"

text \<open>A project file. \<open>requirements\<close> is a dictionary in insertion order, kept as an
  association list; \<open>active_agent\<close> is optional because the orchestrator reads it with a
  default.\<close>

record project =
  name :: string
  active_agent :: "agent_id option"
  requirements :: "(agent_id \<times> requirement) list"
  messages :: "message list"

section \<open>Routing (agents/orchestrator.py, \<open>_determine_next_agent\<close>)\<close>

definition approval_keywords :: "string list" where
  "approval_keywords = [''approved'', ''perfect'', ''looks good'', ''proceed'',
     ''move forward'', ''next phase'', ''next agent'', ''switch to'', ''yes'', ''sure'',
     ''go ahead'', ''continue'', ''next'', ''ready'', ''sounds good'']"

definition approval_progression :: "(agent_id \<times> agent_id) list" where
  "approval_progression = [
     (''requirements_evolver'', ''ux_architect''),
     (''ux_architect'', ''ui_designer''),
     (''ui_designer'', ''frontend_engineer''),
     (''frontend_engineer'', ''data_architect''),
     (''data_architect'', ''api_designer''),
     (''api_designer'', ''devops'')]"

text \<open>The keyword dictionary, in the order in which the source writes its entries (the
  order in which \<open>items()\<close> yields them).\<close>

definition agent_keywords :: "(agent_id \<times> string list) list" where
  "agent_keywords = [
     (''requirements_evolver'',
        [''requirements'', ''what i want'', ''project goal'', ''objective'']),
     (''ux_architect'',
        [''navigate'', ''user flow'', ''ux'', ''experience'', ''usability'', ''interface'',
         ''flow'', ''navigation'', ''user journey'']),
     (''ui_designer'',
        [''change design'', ''change color'', ''ui design'', ''ui'', ''design'', ''color'',
         ''style'', ''theme'', ''look'', ''appearance'']),
     (''data_architect'',
        [''database'', ''data'', ''store'', ''save'', ''storage'', ''persist'', ''db'',
         ''sql'', ''information'']),
     (''api_designer'',
        [''api'', ''backend'', ''server'', ''endpoint'', ''rest'', ''json'', ''backend'',
         ''server-side'']),
     (''frontend_engineer'',
        [''javascript'', ''react'', ''vue'', ''frontend'', ''client'', ''browser'',
         ''technical'', ''implementation'', ''code'', ''functionality'']),
     (''devops'',
        [''deploy'', ''host'', ''server'', ''domain'', ''production'', ''cloud'',
         ''hosting'', ''deployment'', ''server''])]"

text \<open>The loop \<open>for agent_name, keywords in agent_keywords.items()\<close>, which returns at
  the first entry one of whose keywords occurs in the message.\<close>

fun first_keyword_match :: "(agent_id \<times> string list) list \<Rightarrow> string \<Rightarrow> agent_id option" where
  "first_keyword_match [] m = None"
| "first_keyword_match ((a, kws) # rest) m =
     (if any_in kws m then Some a else first_keyword_match rest m)"

text \<open>The progress-based switch: \<open>Some\<close> of the next agent of the chain when the branch
  returns, \<open>None\<close> when control falls through to the final \<open>return current_agent\<close>.\<close>

definition progress_switch :: "agent_id \<Rightarrow> project \<Rightarrow> agent_id option" where
  "progress_switch current_agent project_data =
     (if current_agent \<in> set AGENT_CHAIN then
        (let current_index = index_of AGENT_CHAIN current_agent;
             current_has_contributed =
               (case map_of (requirements project_data) current_agent of
                  None \<Rightarrow> False | Some r \<Rightarrow> has_substance r);
             message_count =
               length (filter (\<lambda>msg. msg_agent msg = Some current_agent)
                         (messages project_data))
         in if (current_has_contributed \<or> 2 \<le> message_count)
               \<and> current_index < length AGENT_CHAIN - 1
            then Some (AGENT_CHAIN ! (current_index + 1)) else None)
      else None)"

definition determine_next_agent :: "agent_id \<Rightarrow> string \<Rightarrow> project \<Rightarrow> agent_id" where
  "determine_next_agent current_agent user_message project_data =
     (let message_lower = lower user_message in
      case (if any_in approval_keywords message_lower
            then map_of approval_progression current_agent else None) of
        Some next_agent \<Rightarrow> next_agent
      | None \<Rightarrow>
          (case first_keyword_match agent_keywords message_lower of
             Some agent_name \<Rightarrow> agent_name
           | None \<Rightarrow>
               (case progress_switch current_agent project_data of
                  Some next_agent \<Rightarrow> next_agent
                | None \<Rightarrow> current_agent)))"

section \<open>Substance classification (\<open>_has_substantial_content\<close>)\<close>

definition early_agents :: "agent_id list" where
  "early_agents = [''requirements_evolver'', ''ux_architect'', ''ui_designer'']"

definition question_phrases :: "string list" where
  "question_phrases = [''what would'', ''can you'', ''please provide'', ''could you tell me'']"

definition technical_indicators :: "(agent_id \<times> string list) list" where
  "technical_indicators = [
     (''frontend_engineer'',
        [''javascript'', ''framework'', ''component'', ''interaction'', ''functionality'',
         ''implementation'']),
     (''data_architect'',
        [''database'', ''storage'', ''data'', ''schema'', ''table'', ''model'']),
     (''api_designer'',
        [''endpoint'', ''api'', ''rest'', ''backend'', ''route'', ''request'', ''response'']),
     (''devops'',
        [''deployment'', ''hosting'', ''server'', ''cloud'', ''domain'', ''ssl'',
         ''environment'']),
     (''code_generator'',
        [''import'', ''def '', ''class '', ''function'', ''const '', ''let '',
         ''app.route''])]"

definition agent_indicators :: "agent_id \<Rightarrow> string list" where
  "agent_indicators agent_name =
     (case map_of technical_indicators agent_name of None \<Rightarrow> [] | Some ks \<Rightarrow> ks)"

definition has_substantial_content :: "string \<Rightarrow> agent_id \<Rightarrow> bool" where
  "has_substantial_content response agent_name =
     (if response = [] \<or> length (strip response) < 25 then False
      else
        (let response_clean = strip response in
         if agent_name \<in> set early_agents then
           (let is_pure_question =
                  (endswith_qmark response_clean \<and> length response_clean < 80
                   \<and> any_in question_phrases (lower response_clean))
            in 30 \<le> length response_clean \<and> \<not> is_pure_question)
         else
           (let has_technical_content =
                  any_in (agent_indicators agent_name) (lower response_clean)
            in 40 \<le> length response_clean \<and> has_technical_content)))"

section \<open>Readiness gate (\<open>_has_minimal_requirements\<close>, \<open>can_generate_code\<close>)\<close>

definition has_minimal_requirements :: "project \<Rightarrow> bool" where
  "has_minimal_requirements project_data =
     (let reqs = requirements project_data;
          substantial_agents = length (filter (\<lambda>agent_data. has_substance agent_data) (map snd reqs));
          has_requirements_evolver =
            (case map_of reqs ''requirements_evolver'' of
               None \<Rightarrow> False | Some r \<Rightarrow> has_substance r)
      in 3 \<le> substantial_agents
         \<or> (has_requirements_evolver \<and> 2 \<le> substantial_agents)
         \<or> 4 \<le> substantial_agents)"

definition get_generation_status_message :: "bool \<Rightarrow> nat \<Rightarrow> string" where
  "get_generation_status_message can_gen substantial_agents =
     (if can_gen then
        ''Ready to generate! Collected substantial requirements from ''
          @ str_of_nat substantial_agents @ '' agents.''
      else if substantial_agents = 0 then
        ''Please describe your project requirements first.''
      else if substantial_agents = 1 then
        ''Getting there! A bit more detail about design or functionality would help.''
      else if substantial_agents = 2 then
        ''Making progress! A few more details about your preferences would be great.''
      else
        ''Almost ready! We have '' @ str_of_nat substantial_agents
          @ '' agents with good requirements.'')"

record generation_status =
  can_generate :: bool
  substantial_agents :: nat
  agent_contributions :: "agent_id list"
  status_has_minimal_requirements :: bool
  status_message :: string

text \<open>The body of \<open>can_generate_code\<close> once the project has been read.\<close>

definition generation_status_of :: "project \<Rightarrow> generation_status" where
  "generation_status_of project_data =
     (let contributing = filter (\<lambda>(agent_name, req_data). has_substance req_data)
                           (requirements project_data);
          n = length contributing;
          ok = has_minimal_requirements project_data
      in \<lparr>can_generate = ok,
          substantial_agents = n,
          agent_contributions = map fst contributing,
          status_has_minimal_requirements = ok,
          status_message = get_generation_status_message ok n\<rparr>)"

section \<open>Session memory (\<open>ADKSession\<close>)\<close>

datatype py_error = FileNotFoundError string | KeyError string

record agent_state =
  interaction_count :: nat
  requirements_provided :: bool

text \<open>A session: its turn log and the states of its agents. The turns carry the fields
  of \<open>message\<close>; their time stamp and identifier play no part in any operation.\<close>

record session =
  session_messages :: "message list"
  agent_states :: "(agent_id \<times> agent_state) list"

definition new_session :: session where
  "new_session = \<lparr>session_messages = [], agent_states = []\<rparr>"

text \<open>\<open>_compact_context\<close>, on the log and returning the log: reading a key that the
  configuration lacks raises \<open>KeyError\<close>.\<close>

definition compact_context :: "session_config \<Rightarrow> message list \<Rightarrow> py_error + message list" where
  "compact_context cfg msgs =
     (case max_messages cfg of
        None \<Rightarrow> Inl (KeyError ''max_messages'')
      | Some mx \<Rightarrow>
          if mx < int (length msgs) then
            (case compaction_strategy cfg of
               None \<Rightarrow> Inl (KeyError ''compaction_strategy'')
             | Some strategy \<Rightarrow>
                 if strategy = ''recent''
                 then (let keep_count = mx div 2 in Inr (py_slice_from (- keep_count) msgs))
                 else Inr msgs)
          else Inr msgs)"

text \<open>\<open>ADKSession.add_message\<close>: the turn is appended first, so a compaction that raises
  leaves the longer log behind. The result is the session after the call and the error
  raised, if any.\<close>

definition session_add_message ::
  "session_config \<Rightarrow> session \<Rightarrow> message \<Rightarrow> session \<times> py_error option" where
  "session_add_message cfg s message_data =
     (let s1 = s\<lparr>session_messages := session_messages s @ [message_data]\<rparr>
      in case compact_context cfg (session_messages s1) of
           Inl e \<Rightarrow> (s1, Some e)
         | Inr kept \<Rightarrow> (s1\<lparr>session_messages := kept\<rparr>, None))"

text \<open>A sequence of appends: a caller that catches the error of one append goes on with
  the session as that append left it.\<close>

fun add_messages :: "session_config \<Rightarrow> session \<Rightarrow> message list \<Rightarrow> session" where
  "add_messages cfg s [] = s"
| "add_messages cfg s (m # ms) = add_messages cfg (fst (session_add_message cfg s m)) ms"

definition get_recent_context :: "int \<Rightarrow> session \<Rightarrow> message list" where
  "get_recent_context limit s = py_slice_from (- limit) (session_messages s)"

definition default_agent_state :: agent_state where
  "default_agent_state = \<lparr>interaction_count = 0, requirements_provided = False\<rparr>"

text \<open>\<open>update_agent_state\<close>; of the keys that callers pass in \<open>updates\<close> only
  \<open>requirements_provided\<close> is a field of the model.\<close>

definition update_agent_state :: "agent_id \<Rightarrow> bool option \<Rightarrow> session \<Rightarrow> session" where
  "update_agent_state agent_name updates s =
     (let state = (case map_of (agent_states s) agent_name of
                     None \<Rightarrow> default_agent_state | Some st \<Rightarrow> st);
          state1 = (case updates of
                      None \<Rightarrow> state | Some b \<Rightarrow> state\<lparr>requirements_provided := b\<rparr>);
          state2 = state1\<lparr>interaction_count := interaction_count state1 + 1\<rparr>
      in s\<lparr>agent_states := AList.update agent_name state2 (agent_states s)\<rparr>)"

section \<open>Storage (\<open>LocalStorage\<close>)\<close>

text \<open>The project files, by project identifier, and the session cache. A missing file
  is the one failure of the file system that is modelled.\<close>

record storage =
  projects :: "string \<rightharpoonup> project"
  sessions :: "string \<rightharpoonup> session"

definition get_project :: "storage \<Rightarrow> string \<Rightarrow> py_error + project" where
  "get_project st project_id =
     (case projects st project_id of
        None \<Rightarrow> Inl (FileNotFoundError project_id) | Some p \<Rightarrow> Inr p)"

definition get_session :: "storage \<Rightarrow> string \<Rightarrow> session" where
  "get_session st project_id =
     (case sessions st project_id of None \<Rightarrow> new_session | Some s \<Rightarrow> s)"

definition touch_agent_state :: "storage \<Rightarrow> string \<Rightarrow> agent_id \<Rightarrow> bool option \<Rightarrow> storage" where
  "touch_agent_state st project_id agent_name updates =
     st\<lparr>sessions := (sessions st)(project_id \<mapsto>
           update_agent_state agent_name updates (get_session st project_id))\<rparr>"

definition set_active_agent :: "storage \<Rightarrow> string \<Rightarrow> agent_id \<Rightarrow> py_error + storage" where
  "set_active_agent st project_id agent_name =
     (case get_project st project_id of
        Inl e \<Rightarrow> Inl e
      | Inr p \<Rightarrow>
          Inr (touch_agent_state
                 (st\<lparr>projects := (projects st)(project_id \<mapsto> p\<lparr>active_agent := Some agent_name\<rparr>)\<rparr>)
                 project_id agent_name None))"

definition update_requirements ::
  "storage \<Rightarrow> string \<Rightarrow> agent_id \<Rightarrow> requirement \<Rightarrow> py_error + storage" where
  "update_requirements st project_id agent_name req =
     (case get_project st project_id of
        Inl e \<Rightarrow> Inl e
      | Inr p \<Rightarrow>
          Inr (touch_agent_state
                 (st\<lparr>projects := (projects st)(project_id \<mapsto>
                        p\<lparr>requirements := AList.update agent_name req (requirements p)\<rparr>)\<rparr>)
                 project_id agent_name (Some True)))"

section \<open>The orchestration facade (\<open>route_message\<close>, \<open>can_generate_code\<close>)\<close>

text \<open>
  The agent executor is outside the program. What the \<open>try\<close> block of
  \<open>_run_single_agent\<close> meets is either a result dictionary, read with \<open>get\<close> and so with
  optional keys, or an exception with its text.
\<close>

record exec_result =
  success :: "bool option"
  response :: "string option"

datatype exec_outcome = Returns exec_result | Raises string

definition apology_failed :: string where
  "apology_failed =
     ''I encountered an issue while processing your request. Please try again. Error: ''"

definition apology_raised :: string where
  "apology_raised = ''I encountered an issue. Please try again. Error: ''"

definition run_single_agent :: "exec_outcome \<Rightarrow> string" where
  "run_single_agent outcome =
     (case outcome of
        Raises e \<Rightarrow> apology_raised @ e
      | Returns result \<Rightarrow>
          if (case success result of None \<Rightarrow> False | Some b \<Rightarrow> b) then
            (case response result of
               Some r \<Rightarrow> r
             | None \<Rightarrow> apology_raised @ [CHR 0x27] @ ''response'' @ [CHR 0x27])
          else
            apology_failed
              @ (case response result of None \<Rightarrow> ''Unknown error occurred'' | Some r \<Rightarrow> r))"

definition extract_requirements_enhanced ::
  "storage \<Rightarrow> string \<Rightarrow> agent_id \<Rightarrow> string \<Rightarrow> string \<Rightarrow> py_error + (bool \<times> storage)" where
  "extract_requirements_enhanced st project_id agent_name resp user_message =
     (let substance = has_substantial_content resp agent_name;
          req = \<lparr>full_response = resp, req_user_message = user_message,
                 req_agent = agent_name, has_substance = substance\<rparr>
      in case update_requirements st project_id agent_name req of
           Inl e \<Rightarrow> Inl e
         | Inr st' \<Rightarrow> Inr (substance, st'))"

record orchestrator =
  orch_storage :: storage
  agent_progress :: "string \<rightharpoonup> agent_id set"

record route_result =
  reply_message :: string
  reply_agent :: agent_id
  should_generate :: bool

definition route_message ::
  "orchestrator \<Rightarrow> string \<Rightarrow> string \<Rightarrow> exec_outcome \<Rightarrow> py_error + (route_result \<times> orchestrator)" where
  "route_message orch project_id user_message outcome =
     (case get_project (orch_storage orch) project_id of
        Inl e \<Rightarrow> Inl e
      | Inr project_data \<Rightarrow>
          (let current_agent0 = (case active_agent project_data of
                                   None \<Rightarrow> ''requirements_evolver'' | Some a \<Rightarrow> a);
               next_agent = determine_next_agent current_agent0 user_message project_data
           in case (if next_agent \<noteq> current_agent0
                    then set_active_agent (orch_storage orch) project_id next_agent
                    else Inr (orch_storage orch)) of
                Inl e \<Rightarrow> Inl e
              | Inr st1 \<Rightarrow>
                  (let current_agent = next_agent;
                       agent_response = run_single_agent outcome
                   in case extract_requirements_enhanced st1 project_id current_agent
                             agent_response user_message of
                        Inl e \<Rightarrow> Inl e
                      | Inr (requirements_updated, st2) \<Rightarrow>
                          (let progress' =
                                 (case agent_progress orch project_id of
                                    Some done \<Rightarrow>
                                      if requirements_updated
                                      then (agent_progress orch)(project_id \<mapsto> insert current_agent done)
                                      else agent_progress orch
                                  | None \<Rightarrow> agent_progress orch)
                           in Inr (\<lparr>reply_message = agent_response,
                                     reply_agent = current_agent,
                                     should_generate = False\<rparr>,
                                   \<lparr>orch_storage = st2, agent_progress = progress'\<rparr>)))))"

definition can_generate_code :: "orchestrator \<Rightarrow> string \<Rightarrow> py_error + generation_status" where
  "can_generate_code orch project_id =
     (case get_project (orch_storage orch) project_id of
        Inl e \<Rightarrow> Inl e
      | Inr project_data \<Rightarrow> Inr (generation_status_of project_data))"

section \<open>Inputs used in the examples\<close>

definition empty_project :: project where
  "empty_project = \<lparr>name = ''demo'', active_agent = Some ''requirements_evolver'',
     requirements = [], messages = []\<rparr>"

definition turn_a :: message where
  "turn_a = \<lparr>role = ''user'', message_text = ''first'', msg_agent = None\<rparr>"

definition turn_b :: message where
  "turn_b = \<lparr>role = ''agent'', message_text = ''second'', msg_agent = None\<rparr>"

definition two_agent_project :: project where
  "two_agent_project = \<lparr>name = ''demo'', active_agent = Some ''ux_architect'',
     requirements =
       [(''requirements_evolver'',
           \<lparr>full_response = ''A recipe sharing site for home cooks.'',
            req_user_message = ''recipes'',
            req_agent = ''requirements_evolver'', has_substance = True\<rparr>),
        (''ux_architect'',
           \<lparr>full_response = ''Three pages: home, recipe, profile.'',
            req_user_message = ''pages'',
            req_agent = ''ux_architect'', has_substance = True\<rparr>)],
     messages = []\<rparr>"

text \<open>An orchestrator whose storage holds the one project \<open>p1\<close>, with no session yet.\<close>

definition orchestrator_with :: "project \<Rightarrow> orchestrator" where
  "orchestrator_with p =
     \<lparr>orch_storage = \<lparr>projects = [''p1'' \<mapsto> p], sessions = Map.empty\<rparr>,
      agent_progress = Map.empty\<rparr>"

section \<open>Notions of the specification\<close>

text \<open>The catalogue of agents: the conversational chain and the code generator. The
  technical agents are the five that have an entry in \<open>technical_indicators\<close>.\<close>

definition agent_catalog :: "agent_id list" where
  "agent_catalog = AGENT_CHAIN @ [''code_generator'']"

definition technical_agents :: "agent_id list" where
  "technical_agents = [''frontend_engineer'', ''data_architect'', ''api_designer'', ''devops'',
     ''code_generator'']"

text \<open>The executor failed: invoking it raised, or its result does not say
  \<open>success = True\<close>. The error text is the text of the exception, or the \<open>response\<close> of
  the failed result (with the default of the source when there is none).\<close>

definition executor_failed :: "exec_outcome \<Rightarrow> bool" where
  "executor_failed outcome =
     (case outcome of Raises e \<Rightarrow> True | Returns result \<Rightarrow> success result \<noteq> Some True)"

definition error_text :: "exec_outcome \<Rightarrow> string" where
  "error_text outcome =
     (case outcome of
        Raises e \<Rightarrow> e
      | Returns result \<Rightarrow>
          (case response result of None \<Rightarrow> ''Unknown error occurred'' | Some r \<Rightarrow> r))"

text \<open>The requirements dictionary of a project as the storage holds it.\<close>

definition stored_requirements :: "orchestrator \<Rightarrow> string \<Rightarrow> (agent_id \<times> requirement) list" where
  "stored_requirements orch project_id =
     (case projects (orch_storage orch) project_id of None \<Rightarrow> [] | Some p \<Rightarrow> requirements p)"

section \<open>The readiness rule in the words of the specification\<close>

text \<open>The number of agents that own a requirement record with substance, counted on the
  dictionary as a set of keys, and the eligibility rule of the specification over that
  number.\<close>

definition spec_substantial_agents :: "project \<Rightarrow> nat" where
  "spec_substantial_agents p =
     card {a \<in> set (map fst (requirements p)).
             case map_of (requirements p) a of None \<Rightarrow> False | Some r \<Rightarrow> has_substance r}"

definition spec_eligible :: "project \<Rightarrow> bool" where
  "spec_eligible p =
     (let n = spec_substantial_agents p;
          evolver = (case map_of (requirements p) ''requirements_evolver'' of
                       None \<Rightarrow> False | Some r \<Rightarrow> has_substance r)
      in 3 \<le> n \<or> (evolver \<and> 2 \<le> n) \<or> 4 \<le> n)"

section \<open>Facts about the string operations\<close>

lemma str_in_iff_sublist: "str_in kw s = sublist kw s"
  by (induction s) (auto simp: sublist_Cons_right)

lemma any_in_iff: "any_in kws s = (\<exists>kw \<in> set kws. sublist kw s)"
  by (simp add: any_in_def list_ex_iff str_in_iff_sublist)

section \<open>Routing\<close>

lemma first_keyword_match_first:
  "i < length t \<Longrightarrow> any_in (snd (t ! i)) m \<Longrightarrow> \<forall>j<i. \<not> any_in (snd (t ! j)) m
     \<Longrightarrow> first_keyword_match t m = Some (fst (t ! i))"
proof (induction t m arbitrary: i rule: first_keyword_match.induct)
  case (1 m)
  then show ?case by simp
next
  case (2 a kws rest m)
  show ?case
  proof (cases i)
    case 0
    with 2 show ?thesis by simp
  next
    case (Suc k)
    with 2 have no_head: "\<not> any_in kws m" by fastforce
    have "first_keyword_match rest m = Some (fst (rest ! k))"
      using 2 Suc no_head by (intro "2.IH") auto
    with no_head Suc show ?thesis by simp
  qed
qed

lemma approval_table:
  assumes "i < 6"
  shows "map_of approval_progression (AGENT_CHAIN ! i) = Some (AGENT_CHAIN ! Suc i)"
proof -
  from assms consider "i = 0" | "i = 1" | "i = 2" | "i = 3" | "i = 4" | "i = 5"
    by linarith
  then show ?thesis
    by cases (simp_all add: approval_progression_def AGENT_CHAIN_def)
qed

lemma approval_scenario:
  "determine_next_agent ''ui_designer'' ''looks good, proceed'' pd = ''frontend_engineer''"
  by (simp add: determine_next_agent_def lower_def py_lower_char_def any_in_def
      approval_keywords_def approval_progression_def)

text \<open>
  C6. At every position of the agent chain but the last, a message that contains an
  approval keyword (after lower-casing, as the router reads it) sends the conversation to
  the successor that the approval-progression table gives, which is the next agent of the
  chain. Nothing is assumed about the project (substance, turn counts) or about topic
  keywords in the message, so the same current agent and message give the same next agent
  for any two projects; and at \<open>ui_designer\<close> the message "looks good, proceed" gives
  \<open>frontend_engineer\<close>.
\<close>

theorem approval_advances_along_table:
  assumes "i < length AGENT_CHAIN - 1"
    and "\<exists>kw \<in> set approval_keywords. sublist kw (lower msg)"
  shows "determine_next_agent (AGENT_CHAIN ! i) msg pd = AGENT_CHAIN ! Suc i
       \<and> map_of approval_progression (AGENT_CHAIN ! i) = Some (AGENT_CHAIN ! Suc i)
       \<and> determine_next_agent (AGENT_CHAIN ! i) msg pd' = determine_next_agent (AGENT_CHAIN ! i) msg pd
       \<and> determine_next_agent ''ui_designer'' ''looks good, proceed'' pd = ''frontend_engineer''"
proof -
  from assms(1) have "i < 6" by (simp add: AGENT_CHAIN_def)
  then have table: "map_of approval_progression (AGENT_CHAIN ! i) = Some (AGENT_CHAIN ! Suc i)"
    by (rule approval_table)
  from assms(2) have approved: "any_in approval_keywords (lower msg)"
    by (simp add: any_in_iff)
  have "determine_next_agent (AGENT_CHAIN ! i) msg q = AGENT_CHAIN ! Suc i" for q
    using table approved by (simp add: determine_next_agent_def)
  with table approval_scenario show ?thesis by simp
qed

theorem approval_advances_along_table_witness:
  "2 < length AGENT_CHAIN - 1
   \<and> (\<exists>kw \<in> set approval_keywords. sublist kw (lower ''Yes, the database design is fine''))
   \<and> determine_next_agent (AGENT_CHAIN ! 2) ''Yes, the database design is fine'' empty_project
       = ''frontend_engineer''"
proof -
  have pos: "2 < length AGENT_CHAIN - 1"
    by (simp add: AGENT_CHAIN_def)
  have "any_in approval_keywords (lower ''Yes, the database design is fine'')"
    by (simp add: lower_def py_lower_char_def any_in_def approval_keywords_def)
  then have kw: "\<exists>kw \<in> set approval_keywords. sublist kw (lower ''Yes, the database design is fine'')"
    by (simp add: any_in_iff)
  have "AGENT_CHAIN ! Suc 2 = ''frontend_engineer''"
    by (simp add: AGENT_CHAIN_def)
  with pos kw approval_advances_along_table [OF pos kw, of empty_project empty_project]
  show ?thesis by simp
qed

text \<open>
  C5, as the code has it. When the lower-cased message contains no approval keyword and
  some entry of the keyword table matches it, routing returns the agent of the first
  matching entry in the table's own order, which is requirements_evolver, ux_architect,
  ui_designer, data_architect, api_designer, frontend_engineer, devops: data_architect and
  api_designer come before frontend_engineer. The current agent plays no part, so the
  result may be the current agent itself.
\<close>

theorem keyword_routing_table_order:
  assumes "\<not> (\<exists>kw \<in> set approval_keywords. sublist kw (lower msg))"
    and "i < length agent_keywords"
    and "\<exists>kw \<in> set (snd (agent_keywords ! i)). sublist kw (lower msg)"
    and "\<forall>j<i. \<not> (\<exists>kw \<in> set (snd (agent_keywords ! j)). sublist kw (lower msg))"
  shows "determine_next_agent cur msg pd = fst (agent_keywords ! i)
    \<and> map fst agent_keywords = [''requirements_evolver'', ''ux_architect'', ''ui_designer'',
         ''data_architect'', ''api_designer'', ''frontend_engineer'', ''devops'']"
proof -
  have "first_keyword_match agent_keywords (lower msg) = Some (fst (agent_keywords ! i))"
    using assms(2-4) by (intro first_keyword_match_first) (simp_all add: any_in_iff)
  moreover have "\<not> any_in approval_keywords (lower msg)"
    using assms(1) by (simp add: any_in_iff)
  ultimately have "determine_next_agent cur msg pd = fst (agent_keywords ! i)"
    by (simp add: determine_next_agent_def)
  then show ?thesis by (simp add: agent_keywords_def)
qed

theorem keyword_routing_table_order_witness:
  "\<not> (\<exists>kw \<in> set approval_keywords. sublist kw (lower ''javascript database''))
   \<and> (3::nat) < length agent_keywords
   \<and> (\<exists>kw \<in> set (snd (agent_keywords ! 3)). sublist kw (lower ''javascript database''))
   \<and> \<not> (\<exists>kw \<in> set (snd (agent_keywords ! 0)). sublist kw (lower ''javascript database''))
   \<and> \<not> (\<exists>kw \<in> set (snd (agent_keywords ! 1)). sublist kw (lower ''javascript database''))
   \<and> \<not> (\<exists>kw \<in> set (snd (agent_keywords ! 2)). sublist kw (lower ''javascript database''))
   \<and> determine_next_agent ''requirements_evolver'' ''javascript database'' empty_project
       = ''data_architect''"
proof -
  let ?m = "''javascript database''"
  have "\<not> any_in approval_keywords (lower ?m)"
    by (simp add: lower_def py_lower_char_def any_in_def approval_keywords_def)
  then have h1: "\<not> (\<exists>kw \<in> set approval_keywords. sublist kw (lower ?m))"
    by (simp add: any_in_iff)
  have h2: "(3::nat) < length agent_keywords"
    by (simp add: agent_keywords_def)
  have "any_in (snd (agent_keywords ! 3)) (lower ?m)"
    by (simp add: lower_def py_lower_char_def any_in_def agent_keywords_def)
  then have h3: "\<exists>kw \<in> set (snd (agent_keywords ! 3)). sublist kw (lower ?m)"
    by (simp add: any_in_iff)
  have none: "\<not> any_in (snd (agent_keywords ! j)) (lower ?m)" if "j < 3" for j
  proof -
    from that consider "j = 0" | "j = 1" | "j = 2" by linarith
    then show ?thesis
      by cases (simp_all add: lower_def py_lower_char_def any_in_def agent_keywords_def)
  qed
  then have h4: "\<forall>j<3. \<not> (\<exists>kw \<in> set (snd (agent_keywords ! j)). sublist kw (lower ?m))"
    by (simp add: any_in_iff)
  have e0: "\<not> (\<exists>kw \<in> set (snd (agent_keywords ! 0)). sublist kw (lower ?m))"
    using none [of 0] by (simp add: any_in_iff)
  have e1: "\<not> (\<exists>kw \<in> set (snd (agent_keywords ! 1)). sublist kw (lower ?m))"
    using none [of 1] by (simp add: any_in_iff)
  have e2: "\<not> (\<exists>kw \<in> set (snd (agent_keywords ! 2)). sublist kw (lower ?m))"
    using none [of 2] by (simp add: any_in_iff)
  have "fst (agent_keywords ! 3) = ''data_architect''"
    by (simp add: agent_keywords_def)
  with h1 h2 h3 e0 e1 e2
    keyword_routing_table_order [OF h1 h2 h3 h4, of "''requirements_evolver''" empty_project]
  show ?thesis by simp
qed

text \<open>
  The message "javascript database" has no approval keyword and carries a keyword of
  frontend_engineer and one of data_architect. frontend_engineer is declared earlier in
  the agent chain, yet with data_architect as the current agent routing returns
  data_architect: the later-declared agent wins, and the conversation does not switch.
\<close>

theorem keyword_order_counterexample:
  "\<not> any_in approval_keywords (lower ''javascript database'')
   \<and> fst (agent_keywords ! 5) = ''frontend_engineer''
   \<and> any_in (snd (agent_keywords ! 5)) (lower ''javascript database'')
   \<and> fst (agent_keywords ! 3) = ''data_architect''
   \<and> any_in (snd (agent_keywords ! 3)) (lower ''javascript database'')
   \<and> index_of AGENT_CHAIN ''frontend_engineer'' < index_of AGENT_CHAIN ''data_architect''
   \<and> determine_next_agent ''data_architect'' ''javascript database'' empty_project
       = ''data_architect''"
  by (simp add: determine_next_agent_def lower_def py_lower_char_def any_in_def
      approval_keywords_def agent_keywords_def AGENT_CHAIN_def)

section \<open>Readiness gate\<close>

lemma count_substantial:
  "distinct (map fst reqs) \<Longrightarrow>
   length (filter has_substance (map snd reqs))
     = card {a \<in> set (map fst reqs).
               case map_of reqs a of None \<Rightarrow> False | Some r \<Rightarrow> has_substance r}"
proof (induction reqs)
  case Nil
  then show ?case by simp
next
  case (Cons kv reqs)
  obtain k v where kv: "kv = (k, v)" by (cases kv)
  let ?S = "{a \<in> set (map fst reqs).
               case map_of reqs a of None \<Rightarrow> False | Some r \<Rightarrow> has_substance r}"
  from Cons.prems kv have fresh: "k \<notin> set (map fst reqs)" and d: "distinct (map fst reqs)"
    by simp_all
  have fin: "finite ?S" by simp
  have notin: "k \<notin> ?S" using fresh by simp
  have eq: "{a \<in> set (map fst (kv # reqs)).
              case map_of (kv # reqs) a of None \<Rightarrow> False | Some r \<Rightarrow> has_substance r}
      = (if has_substance v then insert k ?S else ?S)"
    using fresh kv by (auto split: option.splits)
  have "length (filter has_substance (map snd (kv # reqs)))
          = (if has_substance v then Suc (card ?S) else card ?S)"
    using Cons.IH [OF d] kv by simp
  also have "\<dots> = card (if has_substance v then insert k ?S else ?S)"
    using fin notin by simp
  also have "\<dots> = card {a \<in> set (map fst (kv # reqs)).
       case map_of (kv # reqs) a of None \<Rightarrow> False | Some r \<Rightarrow> has_substance r}"
    by (simp only: eq)
  finally show ?case .
qed

text \<open>
  C1. The project of the scenario: two requirement records with substance, one owned by
  requirements_evolver and one by ux_architect. The readiness check of the code answers
  \<open>can_generate = True\<close> for it, with the "Ready to generate" message; the scenario of
  the specification, like the comment above the rule in the source ("requirements + 2
  other agents"), asks for \<open>False\<close>.
\<close>

theorem two_substantial_agents_can_generate:
  "can_generate_code (orchestrator_with two_agent_project) ''p1''
     = Inr \<lparr>can_generate = True, substantial_agents = 2,
            agent_contributions = [''requirements_evolver'', ''ux_architect''],
            status_has_minimal_requirements = True,
            status_message =
              ''Ready to generate! Collected substantial requirements from 2 agents.''\<rparr>"
  by (simp add: can_generate_code_def orchestrator_with_def get_project_def
      two_agent_project_def generation_status_of_def has_minimal_requirements_def
      get_generation_status_message_def digit_char_def)

text \<open>
  C4. For every stored project (a dictionary has no key twice), the readiness check
  returns, and its \<open>can_generate\<close> is true exactly when the number of agents with a
  substantial record is at least 3, or requirements_evolver has a substantial record and
  that number is at least 2, or that number is at least 4.
\<close>

theorem readiness_gate_rule:
  assumes "projects (orch_storage orch) project_id = Some p"
    and "distinct (map fst (requirements p))"
  shows "\<exists>status. can_generate_code orch project_id = Inr status
           \<and> (can_generate status \<longleftrightarrow> spec_eligible p)"
proof -
  have n: "length (filter (\<lambda>agent_data. has_substance agent_data) (map snd (requirements p)))
             = spec_substantial_agents p"
    unfolding spec_substantial_agents_def by (rule count_substantial [OF assms(2)])
  have run: "can_generate_code orch project_id = Inr (generation_status_of p)"
    using assms(1) by (simp add: can_generate_code_def get_project_def)
  have flag: "can_generate (generation_status_of p) = has_minimal_requirements p"
    by (simp add: generation_status_of_def Let_def)
  have "has_minimal_requirements p = spec_eligible p"
    by (simp only: has_minimal_requirements_def spec_eligible_def Let_def n)
  with run flag show ?thesis by simp
qed

theorem readiness_gate_rule_witness:
  "projects (orch_storage (orchestrator_with two_agent_project)) ''p1'' = Some two_agent_project
   \<and> distinct (map fst (requirements two_agent_project))
   \<and> (\<exists>status. can_generate_code (orchestrator_with two_agent_project) ''p1'' = Inr status
           \<and> (can_generate status \<longleftrightarrow> spec_eligible two_agent_project))"
proof -
  have h1: "projects (orch_storage (orchestrator_with two_agent_project)) ''p1''
              = Some two_agent_project"
    by (simp add: orchestrator_with_def)
  have h2: "distinct (map fst (requirements two_agent_project))"
    by (simp add: two_agent_project_def)
  from h1 h2 readiness_gate_rule [OF h1 h2] show ?thesis by simp
qed

section \<open>Session memory\<close>

lemma slice_last: "0 < n \<Longrightarrow> py_slice_from (- n) xs = drop (length xs - nat n) xs"
  by (auto simp: py_slice_from_def Let_def max_def nat_diff_distrib'
      intro!: arg_cong2 [where f = drop])

lemma add_below_cap:
  "length (session_messages s) < 50 \<Longrightarrow>
   session_add_message SESSION_CONFIG s m
     = (s\<lparr>session_messages := session_messages s @ [m]\<rparr>, None)"
  by (simp add: session_add_message_def compact_context_def SESSION_CONFIG_def)

lemma add_above_cap:
  "50 \<le> length (session_messages s) \<Longrightarrow>
   session_add_message SESSION_CONFIG s m
     = (s\<lparr>session_messages := session_messages s @ [m]\<rparr>,
        Some (KeyError ''compaction_strategy''))"
  by (simp add: session_add_message_def compact_context_def SESSION_CONFIG_def)

lemma add_messages_grow:
  "session_messages (add_messages SESSION_CONFIG s ms) = session_messages s @ ms"
proof (induction ms arbitrary: s)
  case Nil
  then show ?case by simp
next
  case (Cons m ms)
  have "session_messages (fst (session_add_message SESSION_CONFIG s m))
          = session_messages s @ [m]"
    by (cases "length (session_messages s) < 50") (simp_all add: add_below_cap add_above_cap)
  with Cons show ?case by simp
qed

text \<open>
  C3. With \<open>SESSION_CONFIG\<close> as config/settings.py defines it, the 51st append to a new
  session raises \<open>KeyError\<close> (the dictionary has no key \<open>compaction_strategy\<close>), and the
  log then holds 51 turns, more than \<open>max_messages = 50\<close>.
\<close>

theorem append_past_cap_raises:
  "snd (session_add_message SESSION_CONFIG
          (add_messages SESSION_CONFIG new_session (replicate 50 turn_a)) turn_a)
     = Some (KeyError ''compaction_strategy'')
   \<and> length (session_messages (add_messages SESSION_CONFIG new_session (replicate 51 turn_a)))
       = 51
   \<and> max_messages SESSION_CONFIG = Some 50"
proof -
  have "max_messages SESSION_CONFIG = Some 50"
    by (simp add: SESSION_CONFIG_def)
  then show ?thesis
    by (simp add: add_messages_grow add_above_cap new_session_def)
qed

text \<open>
  C7, as the code has it. For every limit \<open>n \<ge> 1\<close>, \<open>get_recent_context n\<close> returns the
  last \<open>min n (length log)\<close> turns of the log in the order of the log, oldest first: the
  window is a suffix of the log.
\<close>

theorem recent_context_window:
  assumes "0 < n"
  shows "length (get_recent_context n s) = min (nat n) (length (session_messages s))
     \<and> suffix (get_recent_context n s) (session_messages s)"
  using assms by (auto simp: get_recent_context_def slice_last suffix_drop)

theorem recent_context_window_witness:
  "(0::int) < 1
   \<and> get_recent_context 1 \<lparr>session_messages = [turn_a, turn_b], agent_states = []\<rparr> = [turn_b]
   \<and> suffix [turn_b] [turn_a, turn_b]"
proof -
  have pos: "(0::int) < 1" by simp
  have "get_recent_context 1 \<lparr>session_messages = [turn_a, turn_b], agent_states = []\<rparr> = [turn_b]"
    by (simp add: get_recent_context_def py_slice_from_def)
  with pos
    recent_context_window [OF pos, of "\<lparr>session_messages = [turn_a, turn_b], agent_states = []\<rparr>"]
  show ?thesis by simp
qed

text \<open>
  After \<open>turn_a\<close> and then \<open>turn_b\<close> have been appended, \<open>get_recent_context 2\<close> returns
  \<open>turn_a\<close> before \<open>turn_b\<close>: the window is oldest first, not most recent first. And with
  the limit 0 the whole log of two turns comes back.
\<close>

theorem recent_context_counterexample:
  "add_messages SESSION_CONFIG new_session [turn_a, turn_b]
     = \<lparr>session_messages = [turn_a, turn_b], agent_states = []\<rparr>
   \<and> get_recent_context 2 (add_messages SESSION_CONFIG new_session [turn_a, turn_b])
       = [turn_a, turn_b]
   \<and> [turn_a, turn_b] \<noteq> [turn_b, turn_a]
   \<and> get_recent_context 0 (add_messages SESSION_CONFIG new_session [turn_a, turn_b])
       = [turn_a, turn_b]"
  by (simp add: session_add_message_def compact_context_def SESSION_CONFIG_def new_session_def
      get_recent_context_def py_slice_from_def turn_a_def turn_b_def)

section \<open>The orchestration facade\<close>

text \<open>
  C10. Whatever the project, the message and the executor's outcome, a result that
  \<open>route_message\<close> returns has \<open>should_generate = False\<close>; and it does return a result
  whenever the project exists.
\<close>

theorem route_message_never_generates:
  "(\<forall>res orch'. route_message orch project_id user_message outcome = Inr (res, orch')
        \<longrightarrow> should_generate res = False)
   \<and> (projects (orch_storage orch) project_id \<noteq> None
        \<longrightarrow> (\<exists>res orch'. route_message orch project_id user_message outcome = Inr (res, orch')))"
  by (auto simp: route_message_def get_project_def set_active_agent_def touch_agent_state_def
      extract_requirements_enhanced_def update_requirements_def Let_def
      split: sum.splits option.splits if_splits prod.splits)

theorem route_message_never_generates_witness:
  "projects (orch_storage (orchestrator_with two_agent_project)) ''p1'' \<noteq> None
   \<and> (\<exists>res orch'. route_message (orchestrator_with two_agent_project) ''p1''
                     ''go ahead and generate'' (Raises ''timeout'') = Inr (res, orch')
                   \<and> should_generate res = False)"
proof -
  have h: "projects (orch_storage (orchestrator_with two_agent_project)) ''p1'' \<noteq> None"
    by (simp add: orchestrator_with_def)
  with route_message_never_generates
         [of "orchestrator_with two_agent_project" "''p1''" "''go ahead and generate''"
             "Raises ''timeout''"]
  show ?thesis by blast
qed

lemma run_single_agent_failed:
  "executor_failed outcome \<Longrightarrow>
   run_single_agent outcome = apology_failed @ error_text outcome
   \<or> run_single_agent outcome = apology_raised @ error_text outcome"
  by (cases outcome)
    (auto simp: executor_failed_def run_single_agent_def error_text_def split: option.splits)

lemma route_message_writes:
  assumes "projects (orch_storage orch) project_id = Some p"
  shows "\<exists>res orch'. route_message orch project_id user_message outcome = Inr (res, orch')
      \<and> reply_message res = run_single_agent outcome
      \<and> map_of (stored_requirements orch' project_id) (reply_agent res)
          = Some \<lparr>full_response = reply_message res, req_user_message = user_message,
                  req_agent = reply_agent res,
                  has_substance = has_substantial_content (reply_message res) (reply_agent res)\<rparr>"
  using assms
  by (auto simp: route_message_def get_project_def set_active_agent_def touch_agent_state_def
      extract_requirements_enhanced_def update_requirements_def stored_requirements_def
      update_conv' Let_def split: option.splits)

text \<open>
  C2, as the code has it. In every turn of an existing project in which the executor
  fails, \<open>route_message\<close> returns a reply that is an apology followed by the error text,
  and it stores a requirement record for the replying agent all the same: the record's
  \<open>full_response\<close> is the apology, and its \<open>has_substance\<close> is the classifier's verdict on
  the apology.
\<close>

theorem route_message_executor_failure:
  assumes "projects (orch_storage orch) project_id = Some p"
    and "executor_failed outcome"
  shows "\<exists>res orch'. route_message orch project_id user_message outcome = Inr (res, orch')
      \<and> (reply_message res = apology_failed @ error_text outcome
           \<or> reply_message res = apology_raised @ error_text outcome)
      \<and> map_of (stored_requirements orch' project_id) (reply_agent res)
          = Some \<lparr>full_response = reply_message res, req_user_message = user_message,
                  req_agent = reply_agent res,
                  has_substance = has_substantial_content (reply_message res) (reply_agent res)\<rparr>"
  using route_message_writes [OF assms(1), of user_message outcome]
    run_single_agent_failed [OF assms(2)] by auto

theorem route_message_executor_failure_witness:
  "projects (orch_storage (orchestrator_with empty_project)) ''p1'' = Some empty_project
   \<and> executor_failed (Raises ''timeout'')
   \<and> (\<exists>res orch'. route_message (orchestrator_with empty_project) ''p1'' ''hello''
                     (Raises ''timeout'') = Inr (res, orch')
        \<and> (reply_message res = apology_failed @ error_text (Raises ''timeout'')
             \<or> reply_message res = apology_raised @ error_text (Raises ''timeout''))
        \<and> map_of (stored_requirements orch' ''p1'') (reply_agent res)
            = Some \<lparr>full_response = reply_message res, req_user_message = ''hello'',
                    req_agent = reply_agent res,
                    has_substance =
                      has_substantial_content (reply_message res) (reply_agent res)\<rparr>)"
proof -
  have h1: "projects (orch_storage (orchestrator_with empty_project)) ''p1'' = Some empty_project"
    by (simp add: orchestrator_with_def)
  have h2: "executor_failed (Raises ''timeout'')"
    by (simp add: executor_failed_def)
  from h1 h2 route_message_executor_failure [OF h1 h2, of "''hello''"]
  show ?thesis by simp
qed

text \<open>
  A turn in which the executor answers \<open>success = False\<close>: the project had no requirement
  record, the reply is the apology with the error text, and afterwards the project holds
  a record of requirements_evolver whose text is that apology, marked as substantial.
\<close>

theorem executor_failure_writes_record:
  "stored_requirements (orchestrator_with empty_project) ''p1'' = []
   \<and> route_message (orchestrator_with empty_project) ''p1'' ''hello''
         (Returns \<lparr>success = Some False, response = Some ''Error: model unavailable''\<rparr>)
       = Inr (\<lparr>reply_message = apology_failed @ ''Error: model unavailable'',
               reply_agent = ''requirements_evolver'', should_generate = False\<rparr>,
              \<lparr>orch_storage =
                 \<lparr>projects = [''p1'' \<mapsto> empty_project\<lparr>requirements :=
                    [(''requirements_evolver'',
                       \<lparr>full_response = apology_failed @ ''Error: model unavailable'',
                        req_user_message = ''hello'', req_agent = ''requirements_evolver'',
                        has_substance = True\<rparr>)]\<rparr>],
                  sessions = [''p1'' \<mapsto> \<lparr>session_messages = [], agent_states =
                    [(''requirements_evolver'',
                       \<lparr>interaction_count = 1, requirements_provided = True\<rparr>)]\<rparr>]\<rparr>,
               agent_progress = Map.empty\<rparr>)"
proof -
  have nxt: "determine_next_agent ''requirements_evolver'' ''hello'' empty_project
               = ''requirements_evolver''"
    by (simp add: determine_next_agent_def lower_def py_lower_char_def any_in_def
        approval_keywords_def agent_keywords_def progress_switch_def AGENT_CHAIN_def
        empty_project_def)
  have sub: "has_substantial_content (apology_failed @ ''Error: model unavailable'')
               ''requirements_evolver''"
    by (simp add: has_substantial_content_def apology_failed_def strip_def py_isspace_def
        early_agents_def endswith_qmark_def)
  have run: "run_single_agent
               (Returns \<lparr>success = Some False, response = Some ''Error: model unavailable''\<rparr>)
             = apology_failed @ ''Error: model unavailable''"
    by (simp add: run_single_agent_def)
  have before: "stored_requirements (orchestrator_with empty_project) ''p1'' = []"
    by (simp add: stored_requirements_def orchestrator_with_def empty_project_def)
  have "route_message (orchestrator_with empty_project) ''p1'' ''hello''
         (Returns \<lparr>success = Some False, response = Some ''Error: model unavailable''\<rparr>)
       = Inr (\<lparr>reply_message = apology_failed @ ''Error: model unavailable'',
               reply_agent = ''requirements_evolver'', should_generate = False\<rparr>,
              \<lparr>orch_storage =
                 \<lparr>projects = [''p1'' \<mapsto> empty_project\<lparr>requirements :=
                    [(''requirements_evolver'',
                       \<lparr>full_response = apology_failed @ ''Error: model unavailable'',
                        req_user_message = ''hello'', req_agent = ''requirements_evolver'',
                        has_substance = True\<rparr>)]\<rparr>],
                  sessions = [''p1'' \<mapsto> \<lparr>session_messages = [], agent_states =
                    [(''requirements_evolver'',
                       \<lparr>interaction_count = 1, requirements_provided = True\<rparr>)]\<rparr>]\<rparr>,
               agent_progress = Map.empty\<rparr>)"
    using sub
    by (simp add: route_message_def orchestrator_with_def get_project_def Let_def nxt run
        extract_requirements_enhanced_def update_requirements_def touch_agent_state_def
        get_session_def new_session_def update_agent_state_def default_agent_state_def
        empty_project_def [THEN arg_cong, of active_agent]
        empty_project_def [THEN arg_cong, of requirements])
  with before show ?thesis by simp
qed

section \<open>Substance classification\<close>

lemma technical_not_early: "a \<in> set technical_agents \<Longrightarrow> a \<notin> set early_agents"
  by (auto simp: technical_agents_def early_agents_def)

lemma strip_Nil: "strip [] = []"
  by (simp add: strip_def)

text \<open>
  C8, as the code has it. For each of the five technical agents, a reply whose trimmed
  length is below 40 has no substance, and a reply whose trimmed length is at least 40
  and whose trimmed, lower-cased text contains one of the agent's domain keywords has
  substance. The keyword is looked for in the trimmed text, so padding counts only where
  trimming leaves it.
\<close>

theorem technical_substance_by_length:
  assumes "a \<in> set technical_agents"
  shows "(length (strip r) < 40 \<longrightarrow> \<not> has_substantial_content r a)
       \<and> (40 \<le> length (strip r)
            \<and> (\<exists>kw \<in> set (agent_indicators a). sublist kw (lower (strip r)))
            \<longrightarrow> has_substantial_content r a)"
proof -
  have ne: "a \<notin> set early_agents" using assms by (rule technical_not_early)
  have short: "\<not> has_substantial_content r a" if "length (strip r) < 40"
    using that ne by (simp add: has_substantial_content_def Let_def)
  have long: "has_substantial_content r a"
    if "40 \<le> length (strip r)"
      and "\<exists>kw \<in> set (agent_indicators a). sublist kw (lower (strip r))"
  proof -
    from that(1) have "r \<noteq> []" by (auto simp: strip_Nil)
    moreover from that(2) have "any_in (agent_indicators a) (lower (strip r))"
      by (simp add: any_in_iff)
    ultimately show ?thesis
      using that(1) ne by (simp add: has_substantial_content_def Let_def)
  qed
  from short long show ?thesis by blast
qed

theorem technical_substance_by_length_witness:
  "''data_architect'' \<in> set technical_agents
   \<and> length (strip ''  a database schema  '') < 40
   \<and> \<not> has_substantial_content ''  a database schema  '' ''data_architect''
   \<and> 40 \<le> length (strip ''We keep users and recipes in a Database schema.'')
   \<and> (\<exists>kw \<in> set (agent_indicators ''data_architect'').
         sublist kw (lower (strip ''We keep users and recipes in a Database schema.'')))
   \<and> has_substantial_content ''We keep users and recipes in a Database schema.''
        ''data_architect''"
proof -
  have h1: "''data_architect'' \<in> set technical_agents"
    by (simp add: technical_agents_def)
  have h2: "length (strip ''  a database schema  '') < 40"
    by (simp add: strip_def py_isspace_def)
  have h3: "40 \<le> length (strip ''We keep users and recipes in a Database schema.'')"
    by (simp add: strip_def py_isspace_def)
  have "any_in (agent_indicators ''data_architect'')
          (lower (strip ''We keep users and recipes in a Database schema.''))"
    by (simp add: strip_def py_isspace_def lower_def py_lower_char_def any_in_def
        agent_indicators_def technical_indicators_def)
  then have h4: "\<exists>kw \<in> set (agent_indicators ''data_architect'').
         sublist kw (lower (strip ''We keep users and recipes in a Database schema.''))"
    by (simp add: any_in_iff)
  from h1 h2 h3 h4
    technical_substance_by_length [OF h1, of "''  a database schema  ''"]
    technical_substance_by_length [OF h1, of "''We keep users and recipes in a Database schema.''"]
  show ?thesis by blast
qed

text \<open>
  The reply "keyword def " contains code_generator's keyword \<open>def\<close> with its blank and is
  short, so it has no substance. Padded in front to 46 trimmed characters it still
  contains that keyword, and still has no substance: trimming removes the blank that the
  keyword ends in.
\<close>

theorem trailing_keyword_counterexample:
  "''code_generator'' \<in> set technical_agents
   \<and> ''def '' \<in> set (agent_indicators ''code_generator'')
   \<and> str_in ''def '' ''keyword def ''
   \<and> length (strip ''keyword def '') < 40
   \<and> \<not> has_substantial_content ''keyword def '' ''code_generator''
   \<and> str_in ''def '' (''The handler starts with the python '' @ ''keyword def '')
   \<and> 40 \<le> length (strip (''The handler starts with the python '' @ ''keyword def ''))
   \<and> \<not> has_substantial_content (''The handler starts with the python '' @ ''keyword def '')
         ''code_generator''"
  by (simp add: technical_agents_def agent_indicators_def technical_indicators_def
      has_substantial_content_def strip_def py_isspace_def lower_def py_lower_char_def
      any_in_def early_agents_def)

section \<open>Malformed input\<close>

lemma first_keyword_match_None:
  "first_keyword_match t m = None \<longleftrightarrow> (\<forall>(a, kws) \<in> set t. \<not> any_in kws m)"
  by (induction t m rule: first_keyword_match.induct) auto

lemma unknown_not_in_table:
  "cur \<notin> set AGENT_CHAIN \<Longrightarrow> map_of approval_progression cur = None"
  by (auto simp: AGENT_CHAIN_def approval_progression_def)

lemma no_keyword_in_empty: "first_keyword_match agent_keywords [] = None"
  by (simp add: agent_keywords_def any_in_def)

lemma no_approval_in_empty: "\<not> any_in approval_keywords []"
  by (simp add: approval_keywords_def any_in_def)

text \<open>
  C9, as the code has it. Classification and routing are functions of their inputs with
  no failing branch. Classification answers no-substance for the empty text whatever the
  agent, and for every text when the agent is absent from the catalogue. Routing returns
  the current agent unchanged when that agent is absent from the catalogue and the
  message contains no topic keyword, in particular for the empty message; for the empty
  message and any current agent, the result is the progress-based successor when there
  is one and the current agent otherwise.
\<close>

theorem classification_routing_degrade:
  "\<not> has_substantial_content [] a
   \<and> (a \<notin> set agent_catalog \<longrightarrow> \<not> has_substantial_content r a)
   \<and> (cur \<notin> set agent_catalog
        \<and> \<not> (\<exists>(b, kws) \<in> set agent_keywords. \<exists>kw \<in> set kws. sublist kw (lower msg))
        \<longrightarrow> determine_next_agent cur msg pd = cur)
   \<and> (cur \<notin> set agent_catalog \<longrightarrow> determine_next_agent cur [] pd = cur)
   \<and> determine_next_agent cur [] pd
       = (case progress_switch cur pd of None \<Rightarrow> cur | Some next_agent \<Rightarrow> next_agent)"
proof -
  have c1: "\<not> has_substantial_content [] a"
    by (simp add: has_substantial_content_def)
  have c2: "\<not> has_substantial_content r a" if "a \<notin> set agent_catalog"
  proof -
    from that have "a \<notin> set early_agents" and "map_of technical_indicators a = None"
      by (auto simp: agent_catalog_def AGENT_CHAIN_def early_agents_def technical_indicators_def)
    then show ?thesis
      by (simp add: has_substantial_content_def agent_indicators_def any_in_def Let_def)
  qed
  have stay: "determine_next_agent cur m pd = cur"
    if "cur \<notin> set agent_catalog" and "first_keyword_match agent_keywords (lower m) = None"
    for m
  proof -
    from that(1) have out: "cur \<notin> set AGENT_CHAIN" by (simp add: agent_catalog_def)
    then have "map_of approval_progression cur = None" by (rule unknown_not_in_table)
    moreover from out have "progress_switch cur pd = None" by (simp add: progress_switch_def)
    ultimately show ?thesis using that(2) by (simp add: determine_next_agent_def Let_def)
  qed
  have c3: "determine_next_agent cur msg pd = cur"
    if "cur \<notin> set agent_catalog"
      and "\<not> (\<exists>(b, kws) \<in> set agent_keywords. \<exists>kw \<in> set kws. sublist kw (lower msg))"
  proof -
    from that(2) have "first_keyword_match agent_keywords (lower msg) = None"
      by (auto simp: first_keyword_match_None any_in_iff)
    with that(1) show ?thesis by (rule stay)
  qed
  have c4: "determine_next_agent cur [] pd = cur" if "cur \<notin> set agent_catalog"
    using stay [OF that, of "[]"] no_keyword_in_empty by (simp add: lower_def)
  have c5: "determine_next_agent cur [] pd
       = (case progress_switch cur pd of None \<Rightarrow> cur | Some next_agent \<Rightarrow> next_agent)"
    using no_keyword_in_empty no_approval_in_empty
    by (simp add: determine_next_agent_def lower_def Let_def)
  from c1 c2 c3 c4 c5 show ?thesis by blast
qed

theorem classification_routing_degrade_witness:
  "''mystery_agent'' \<notin> set agent_catalog
   \<and> \<not> (\<exists>(b, kws) \<in> set agent_keywords. \<exists>kw \<in> set kws. sublist kw (lower ''Hello there''))
   \<and> \<not> has_substantial_content ''We keep users and recipes in a Database schema.''
          ''mystery_agent''
   \<and> determine_next_agent ''mystery_agent'' ''Hello there'' two_agent_project = ''mystery_agent''
   \<and> determine_next_agent ''mystery_agent'' [] two_agent_project = ''mystery_agent''"
proof -
  have h1: "''mystery_agent'' \<notin> set agent_catalog"
    by (simp add: agent_catalog_def AGENT_CHAIN_def)
  have "first_keyword_match agent_keywords (lower ''Hello there'') = None"
    by (simp add: agent_keywords_def any_in_def lower_def py_lower_char_def)
  then have h2: "\<not> (\<exists>(b, kws) \<in> set agent_keywords. \<exists>kw \<in> set kws.
                      sublist kw (lower ''Hello there''))"
    by (auto simp: first_keyword_match_None any_in_iff)
  from h1 h2
    classification_routing_degrade
      [of "''mystery_agent''" "''We keep users and recipes in a Database schema.''"
          "''mystery_agent''" "''Hello there''" two_agent_project]
  show ?thesis by blast
qed

text \<open>
  With the empty message, requirements_evolver as the current agent and a substantial
  record of requirements_evolver in the project, routing moves on to ux_architect; and
  with a current agent that the catalogue does not know, the message "database" switches
  to data_architect.
\<close>

theorem routing_degrade_counterexample:
  "determine_next_agent ''requirements_evolver'' [] two_agent_project = ''ux_architect''
   \<and> ''mystery_agent'' \<notin> set agent_catalog
   \<and> determine_next_agent ''mystery_agent'' ''database'' empty_project = ''data_architect''"
  by (simp add: determine_next_agent_def lower_def py_lower_char_def any_in_def
      approval_keywords_def agent_keywords_def progress_switch_def AGENT_CHAIN_def
      two_agent_project_def agent_catalog_def approval_progression_def)

end
